theory Spec2Isabelle
  imports Main "HOL-Library.Sublist"
begin

section \<open>The SWC client of \<^verbatim>\<open>swcpy/swc_client.py\<close>\<close>

text \<open>
  The client class \<^verbatim>\<open>SWCClient\<close> has a constructor, which copies the configuration,
  builds the table of bulk file names and, when retries are switched on, stores a
  retry-decorated alias of \<^verbatim>\<open>call_api\<close>; and the method \<^verbatim>\<open>call_api\<close>, which issues
  one GET through httpx. Strings are \<open>char list\<close>s, Python dictionaries are association
  lists in insertion order, exceptions are the left summand of a sum type, and the log
  and the requests handed to httpx are fields of an explicit state.
\<close>

subsection \<open>Python values and strings\<close>

text \<open>
  Values of query parameters. \<open>PyNone\<close> is Python's \<^verbatim>\<open>None\<close>; the test
  \<^verbatim>\<open>val is not None\<close> is \<open>val \<noteq> PyNone\<close>.
\<close>

datatype py_value = PyNone | PyStr string | PyInt int | PyBool bool

type_synonym py_dict = "(string \<times> py_value) list"

text \<open>
  \<^verbatim>\<open>str.lower()\<close>. On ASCII it maps \<open>A\<close>..\<open>Z\<close> (codes 65..90) to \<open>a\<close>..\<open>z\<close> and
  leaves every other character alone. A \<open>char\<close> is a byte, so a character outside ASCII
  is a run of bytes of 128 and more, which this model keeps as they are; Python lowers
  some of those characters, but none of them to a letter of \<open>parquet\<close>, so the
  comparison with \<^verbatim>\<open>"parquet"\<close> in the constructor comes out the same.
\<close>

definition is_upper :: "char \<Rightarrow> bool" where
  "is_upper c \<longleftrightarrow> 65 \<le> (of_char c :: nat) \<and> (of_char c :: nat) \<le> 90"

definition lower_char :: "char \<Rightarrow> char" where
  "lower_char c = (if is_upper c then char_of (of_char c + (32::nat)) else c)"

definition lower :: "string \<Rightarrow> string" where
  "lower s = map lower_char s"

text \<open>
  Equality up to case, as the specification words it ("case-insensitively equals"), stated
  without \<open>lower\<close>: two strings of the same length whose characters agree position by
  position, or differ only in that one is the capital of the other.
\<close>

definition same_letter :: "char \<Rightarrow> char \<Rightarrow> bool" where
  "same_letter a b \<longleftrightarrow>
     a = b \<or> (is_upper a \<and> of_char b = (of_char a :: nat) + 32)
           \<or> (is_upper b \<and> of_char a = (of_char b :: nat) + 32)"

definition equal_ignoring_case :: "string \<Rightarrow> string \<Rightarrow> bool" where
  "equal_ignoring_case s t = list_all2 same_letter s t"

subsection \<open>Configuration\<close>

text \<open>
  Modelled from the spec: the class \<^verbatim>\<open>SWCConfig\<close> of the module \<^verbatim>\<open>swcpy.swc_config\<close> is
  not among the source files. The specification gives it four fields, base URL (string),
  retry flag (bool), retry ceiling in seconds (number) and bulk file format (string); the
  constructor of the client reads them under the names below.
\<close>

record SWCConfig =
  swc_base_url :: string
  swc_backoff :: bool
  swc_backoff_max_time :: int
  swc_bulk_file_format :: string

subsection \<open>The client object\<close>

text \<open>
  The arguments of \<^verbatim>\<open>backoff.on_exception\<close> in the constructor. The decorator belongs to
  the library \<^verbatim>\<open>backoff\<close>; the client only chooses its arguments, which is all that is
  recorded here.
\<close>

datatype wait_generator = expo

datatype jitter_function = random_jitter

datatype exception_class = RequestError_class | HTTPStatusError_class

record on_exception =
  wait_gen :: wait_generator
  exception :: "exception_class list"
  max_time :: int
  jitter :: jitter_function

text \<open>
  The instance attributes. \<open>get_url\<close> is \<open>None\<close> when the attribute was never assigned.
  The attribute \<^verbatim>\<open>self.swc_base_url\<close> carries a suffix, since the configuration has a field
  of the same name.
\<close>

record SWCClient =
  swc_base_url_self :: string
  backoff :: bool
  backoff_max_time :: int
  bulk_file_format :: string
  BULK_FILE_NAMES :: "(string \<times> string) list"
  get_url :: "on_exception option"

definition HEALTH_CHECK_ENDPOINT :: string where
  "HEALTH_CHECK_ENDPOINT = ''/''"

definition LIST_LEAGUES_ENDPOINT :: string where
  "LIST_LEAGUES_ENDPOINT = ''/v0/leagues/''"

definition LIST_PLAYERS_ENDPOINT :: string where
  "LIST_PLAYERS_ENDPOINT = ''/v0/players/''"

definition LIST_PERFORMANCES_ENDPOINT :: string where
  "LIST_PERFORMANCES_ENDPOINT = ''/v0/performances/''"

definition LIST_TEAMS_ENDPOINT :: string where
  "LIST_TEAMS_ENDPOINT = ''/v0/teams/''"

definition GET_COUNTS_ENDPOINT :: string where
  "GET_COUNTS_ENDPOINT = ''/v0/counts/''"

definition BULK_FILE_BASE_URL :: string where
  "BULK_FILE_BASE_URL =
     ''https://raw.githubusercontent.com/46075417'' @ ''/portfolio-project/main/bulk/''"

subsection \<open>HTTP, errors and the observable state\<close>

record response =
  status_code :: nat
  headers :: "(string \<times> string) list"
  text_of :: string

text \<open>
  A status that indicates failure, as the specification words it: 4xx or 5xx.
\<close>

definition failure_status :: "response \<Rightarrow> bool" where
  "failure_status r \<longleftrightarrow> 400 \<le> status_code r \<and> status_code r < 600"

text \<open>
  What \<^verbatim>\<open>call_api\<close> hands to httpx: the base URL of the \<^verbatim>\<open>httpx.Client\<close>, the endpoint
  given to \<^verbatim>\<open>client.get\<close> and its \<^verbatim>\<open>params\<close> argument (\<open>None\<close> is Python's \<^verbatim>\<open>None\<close>).
  Joining base URL and endpoint into one URL is httpx's work.
\<close>

record request =
  base_url :: string
  url :: string
  params :: "py_dict option"

datatype json =
    JNull | JBool bool | JNumber int | JString string
  | JArray "json list" | JObject "(string \<times> json) list"

text \<open>
  The exceptions that can leave \<^verbatim>\<open>call_api\<close> or an attribute lookup on the client.
  \<open>JSONDecodeError\<close> is the \<^verbatim>\<open>ValueError\<close> that \<^verbatim>\<open>response.json()\<close> raises on a body that
  is no JSON document; it is neither an \<^verbatim>\<open>httpx.RequestError\<close> nor an
  \<^verbatim>\<open>httpx.HTTPStatusError\<close>.
\<close>

datatype exn =
    HTTPStatusError response
  | RequestError string
  | JSONDecodeError
  | AttributeError string

text \<open>
  The library httpx is a parameter. \<open>client_get\<close> is one exchange: it returns the
  response the server sent, whatever its status, or fails with the message of an
  \<^verbatim>\<open>httpx.RequestError\<close> (connection refused, timeout, DNS failure). httpx raises
  \<^verbatim>\<open>HTTPStatusError\<close> from \<^verbatim>\<open>Response.raise_for_status\<close> only, so \<open>client_get\<close> has no
  such outcome. \<open>response_json\<close> is \<^verbatim>\<open>Response.json\<close>: the decoded body, or \<open>None\<close> when
  the decoder raises.
\<close>

record httpx =
  client_get :: "request \<Rightarrow> string + response"
  response_json :: "response \<Rightarrow> json option"

datatype log_record =
    Debug_bulk_file_base_url string
  | Debug_input_config SWCConfig
  | Debug_bulk_file_dictionary "(string \<times> string) list"
  | Debug_call string string "py_dict option"
  | Debug_response_json json
  | Error_http_status nat string
  | Error_request string

text \<open>The module's logger and the exchanges attempted so far, oldest first.\<close>

record world =
  logged :: "log_record list"
  sent :: "request list"

definition logger :: "log_record \<Rightarrow> world \<Rightarrow> world" where
  "logger r w = w\<lparr>logged := logged w @ [r]\<rparr>"

subsection \<open>The constructor\<close>

definition SWCClient_init :: "SWCConfig \<Rightarrow> world \<Rightarrow> SWCClient \<times> world" where
  "SWCClient_init input_config w =
     (let w = logger (Debug_bulk_file_base_url BULK_FILE_BASE_URL) w;
          w = logger (Debug_input_config input_config) w;
          names = [(''players'', ''player_data''),
                   (''leagues'', ''league_data''),
                   (''performances'', ''performance_data''),
                   (''teams'', ''team_data''),
                   (''team_players'', ''team_player_data'')];
          alias = (if swc_backoff input_config
                   then Some \<lparr>wait_gen = expo,
                              exception = [RequestError_class, HTTPStatusError_class],
                              max_time = swc_backoff_max_time input_config,
                              jitter = random_jitter\<rparr>
                   else None);
          names = (if lower (swc_bulk_file_format input_config) = ''parquet''
                   then map (\<lambda>(key, value). (key, value @ ''.parquet'')) names
                   else map (\<lambda>(key, value). (key, value @ ''.csv'')) names);
          w = logger (Debug_bulk_file_dictionary names) w
      in (\<lparr>swc_base_url_self = swc_base_url input_config,
           backoff = swc_backoff input_config,
           backoff_max_time = swc_backoff_max_time input_config,
           bulk_file_format = swc_bulk_file_format input_config,
           BULK_FILE_NAMES = names,
           get_url = alias\<rparr>, w))"

text \<open>
  Reading \<^verbatim>\<open>client.get_url\<close>: the class defines no method of that name, so the lookup
  finds the instance attribute or raises \<^verbatim>\<open>AttributeError\<close>.
\<close>

definition getattr_get_url :: "SWCClient \<Rightarrow> exn + on_exception" where
  "getattr_get_url self =
     (case get_url self of
        None \<Rightarrow> Inl (AttributeError ''get_url'')
      | Some wrapped \<Rightarrow> Inr wrapped)"

subsection \<open>\<^verbatim>\<open>call_api\<close>\<close>

text \<open>
  The source file indents the statements of \<^verbatim>\<open>call_api\<close> (lines 112 to 128) at the
  level of its \<^verbatim>\<open>def\<close>; they are read here as the body of the method, which is what
  they are written to be.

  Lines 114 and 115: a dictionary that is not empty is rebuilt without its \<^verbatim>\<open>None\<close>
  values; \<^verbatim>\<open>None\<close> and the empty dictionary are falsy and pass as they are.
\<close>

definition strip_params :: "py_dict option \<Rightarrow> py_dict option" where
  "strip_params api_params =
     (case api_params of
        None \<Rightarrow> None
      | Some d \<Rightarrow>
          if d \<noteq> [] then Some (filter (\<lambda>(key, val). val \<noteq> PyNone) d) else Some d)"

text \<open>
  The body of the \<^verbatim>\<open>try\<close>: the debug record of the call, the one \<^verbatim>\<open>client.get\<close>, then the
  debug record of the decoded body. The f-string calls \<^verbatim>\<open>response.json()\<close> before the
  logger sees the message, at every log level, and its exception leaves the body.
\<close>

definition try_body ::
  "SWCClient \<Rightarrow> httpx \<Rightarrow> string \<Rightarrow> py_dict option \<Rightarrow> world \<Rightarrow> (exn + response) \<times> world" where
  "try_body self lib api_endpoint api_params w =
     (let rq = \<lparr>base_url = swc_base_url_self self, url = api_endpoint, params = api_params\<rparr>;
          w = logger (Debug_call (swc_base_url_self self) api_endpoint api_params) w;
          w = w\<lparr>sent := sent w @ [rq]\<rparr>
      in case client_get lib rq of
           Inl msg \<Rightarrow> (Inl (RequestError msg), w)
         | Inr r \<Rightarrow>
             (case response_json lib r of
                None \<Rightarrow> (Inl JSONDecodeError, w)
              | Some j \<Rightarrow> (Inr r, logger (Debug_response_json j) w)))"

text \<open>The two \<^verbatim>\<open>except\<close> clauses; an exception of any other class passes through.\<close>

fun except_clauses :: "exn \<Rightarrow> world \<Rightarrow> (exn + response) \<times> world" where
  "except_clauses (HTTPStatusError r) w =
     (Inl (HTTPStatusError r), logger (Error_http_status (status_code r) (text_of r)) w)"
| "except_clauses (RequestError msg) w =
     (Inl (RequestError msg), logger (Error_request msg) w)"
| "except_clauses e w = (Inl e, w)"

definition call_api ::
  "SWCClient \<Rightarrow> httpx \<Rightarrow> string \<Rightarrow> py_dict option \<Rightarrow> world \<Rightarrow> (exn + response) \<times> world" where
  "call_api self lib api_endpoint api_params w =
     (case try_body self lib api_endpoint (strip_params api_params) w of
        (Inl e, w') \<Rightarrow> except_clauses e w'
      | (Inr r, w') \<Rightarrow> (Inr r, w'))"

subsection \<open>Concrete collaborators for the examples\<close>

text \<open>
  The examples below run the client against a server that gives the same answer to every
  request, or that cannot be reached. Their decoder knows the two JSON documents the
  examples send, \<^verbatim>\<open>{}\<close> and \<^verbatim>\<open>[]\<close>, and rejects the bodies \<^verbatim>\<open>OK\<close> and
  \<^verbatim>\<open>Service Unavailable\<close>, as every JSON decoder does; it is used at these bodies only.
\<close>

definition json_stub :: "response \<Rightarrow> json option" where
  "json_stub r =
     (if text_of r = ''{}'' then Some (JObject [])
      else if text_of r = ''[]'' then Some (JArray [])
      else None)"

definition answering :: "nat \<Rightarrow> string \<Rightarrow> httpx" where
  "answering status body =
     \<lparr>client_get = (\<lambda>rq. Inr \<lparr>status_code = status, headers = [], text_of = body\<rparr>),
      response_json = json_stub\<rparr>"

definition unreachable :: "string \<Rightarrow> httpx" where
  "unreachable msg = \<lparr>client_get = (\<lambda>rq. Inl msg), response_json = json_stub\<rparr>"

definition scenario_config :: "string \<Rightarrow> bool \<Rightarrow> SWCConfig" where
  "scenario_config fmt retry =
     \<lparr>swc_base_url = ''https://api.example.com'', swc_backoff = retry,
      swc_backoff_max_time = 1, swc_bulk_file_format = fmt\<rparr>"

definition quiet :: world where
  "quiet = \<lparr>logged = [], sent = []\<rparr>"

section \<open>The bulk file name table\<close>

lemma of_char_lower_char:
  "(of_char (lower_char c) :: nat) = (if is_upper c then of_char c + 32 else of_char c)"
  by (simp add: lower_char_def is_upper_def)

lemma lower_char_eq_iff: "lower_char a = lower_char b \<longleftrightarrow> same_letter a b"
proof -
  have "lower_char a = lower_char b \<longleftrightarrow>
        (of_char (lower_char a) :: nat) = of_char (lower_char b)"
    by simp
  also have "\<dots> \<longleftrightarrow> same_letter a b"
    unfolding of_char_lower_char same_letter_def
    by (auto simp: is_upper_def)
  finally show ?thesis .
qed

text \<open>Comparing the lowered strings is comparing the strings up to case.\<close>

lemma lower_eq_iff: "lower s = lower t \<longleftrightarrow> equal_ignoring_case s t"
proof (induction s arbitrary: t)
  case Nil
  show ?case by (simp add: lower_def equal_ignoring_case_def)
next
  case (Cons a s)
  show ?case
  proof (cases t)
    case Nil
    then show ?thesis by (simp add: lower_def equal_ignoring_case_def)
  next
    case (Cons b t')
    with Cons.IH [of t'] show ?thesis
      by (simp add: lower_def equal_ignoring_case_def lower_char_eq_iff)
  qed
qed

lemma lower_parquet: "lower ''parquet'' = ''parquet''"
  by (simp add: lower_def lower_char_def is_upper_def)

lemma format_test_iff:
  "lower fmt = ''parquet'' \<longleftrightarrow> equal_ignoring_case fmt ''parquet''"
  using lower_eq_iff [of fmt "''parquet''"] by (simp only: lower_parquet)

lemma names_of_init:
  "BULK_FILE_NAMES (fst (SWCClient_init cfg w)) =
     map (\<lambda>(key, value). (key, value @
            (if equal_ignoring_case (swc_bulk_file_format cfg) ''parquet''
             then ''.parquet'' else ''.csv'')))
       [(''players'', ''player_data''),
        (''leagues'', ''league_data''),
        (''performances'', ''performance_data''),
        (''teams'', ''team_data''),
        (''team_players'', ''team_player_data'')]"
  by (simp add: SWCClient_init_def Let_def format_test_iff)

text \<open>
  Claim C4. When the configured format equals \<open>parquet\<close> up to case, every value of the
  table the constructor builds ends in \<open>.parquet\<close>; for every other format string every
  value ends in \<open>.csv\<close>.
\<close>

theorem bulk_file_extension_follows_format:
  "(equal_ignoring_case (swc_bulk_file_format cfg) ''parquet'' \<longrightarrow>
      (\<forall>(key, value) \<in> set (BULK_FILE_NAMES (fst (SWCClient_init cfg w))).
         suffix ''.parquet'' value)) \<and>
   (\<not> equal_ignoring_case (swc_bulk_file_format cfg) ''parquet'' \<longrightarrow>
      (\<forall>(key, value) \<in> set (BULK_FILE_NAMES (fst (SWCClient_init cfg w))).
         suffix ''.csv'' value))"
  unfolding names_of_init by (auto intro: suffixI)

theorem bulk_file_extension_follows_format_witness:
  "equal_ignoring_case ''PaRqUeT'' ''parquet'' \<and>
   list_all (\<lambda>(key, value). suffix ''.parquet'' value)
     (BULK_FILE_NAMES (fst (SWCClient_init (scenario_config ''PaRqUeT'' False) quiet))) \<and>
   \<not> equal_ignoring_case ''xlsx'' ''parquet'' \<and>
   list_all (\<lambda>(key, value). suffix ''.csv'' value)
     (BULK_FILE_NAMES (fst (SWCClient_init (scenario_config ''xlsx'' True) quiet)))"
proof -
  have p: "equal_ignoring_case
             (swc_bulk_file_format (scenario_config ''PaRqUeT'' False)) ''parquet''"
    by (simp add: scenario_config_def equal_ignoring_case_def same_letter_def is_upper_def)
  have c: "\<not> equal_ignoring_case
               (swc_bulk_file_format (scenario_config ''xlsx'' True)) ''parquet''"
    by (simp add: scenario_config_def equal_ignoring_case_def)
  from p c
    bulk_file_extension_follows_format [of "scenario_config ''PaRqUeT'' False" quiet]
    bulk_file_extension_follows_format [of "scenario_config ''xlsx'' True" quiet]
  show ?thesis
    by (simp add: list_all_iff scenario_config_def)
qed

text \<open>
  Claim C5. The table the constructor leaves on the client has the five keys \<open>players\<close>,
  \<open>leagues\<close>, \<open>performances\<close>, \<open>teams\<close> and \<open>team_players\<close>, in this order and no
  other, each with its fixed base name followed by the extension the format selects; with
  the format \<open>Parquet\<close> the key \<open>players\<close> maps to \<open>player_data.parquet\<close>. No other
  function of the class assigns to the table.
\<close>

theorem bulk_file_names_table:
  "BULK_FILE_NAMES (fst (SWCClient_init cfg w)) =
     (let ext = (if equal_ignoring_case (swc_bulk_file_format cfg) ''parquet''
                 then ''.parquet'' else ''.csv'')
      in [(''players'', ''player_data'' @ ext),
          (''leagues'', ''league_data'' @ ext),
          (''performances'', ''performance_data'' @ ext),
          (''teams'', ''team_data'' @ ext),
          (''team_players'', ''team_player_data'' @ ext)]) \<and>
   map_of (BULK_FILE_NAMES (fst (SWCClient_init (scenario_config ''Parquet'' retry) w)))
     ''players'' = Some ''player_data.parquet''"
proof -
  have "equal_ignoring_case (swc_bulk_file_format (scenario_config ''Parquet'' retry)) ''parquet''"
    by (simp add: scenario_config_def equal_ignoring_case_def same_letter_def is_upper_def)
  then show ?thesis
    by (simp add: names_of_init Let_def)
qed

section \<open>The request \<^verbatim>\<open>call_api\<close> issues\<close>

text \<open>
  Every call hands exactly one request to httpx, whatever comes back: the base URL of the
  client, the endpoint as given, and the stripped parameters.
\<close>

lemma sent_call_api:
  "sent (snd (call_api self lib api_endpoint api_params w)) =
     sent w @ [\<lparr>base_url = swc_base_url_self self, url = api_endpoint,
               params = strip_params api_params\<rparr>]"
  by (cases api_params)
     (auto simp: call_api_def try_body_def logger_def Let_def
           split: sum.splits option.splits exn.splits)

lemma strip_params_no_None:
  "strip_params api_params = Some d \<Longrightarrow> PyNone \<notin> snd ` set d"
  by (cases api_params) (auto simp: strip_params_def split: if_splits)

text \<open>
  Claim C3. Whatever parameter mapping is passed, the one request \<^verbatim>\<open>call_api\<close> issues
  carries no key whose value is \<^verbatim>\<open>None\<close>. In particular, on a client configured with
  the base URL \<^verbatim>\<open>https://api.example.com\<close>, no retries and the format \<open>csv\<close>, the call
  with \<^verbatim>\<open>"/v0/leagues/"\<close> and \<^verbatim>\<open>{"league_id": None}\<close> issues a GET for that base URL and
  endpoint with an empty parameter mapping.
\<close>

theorem no_none_valued_parameter_is_sent:
  "(\<exists>rq. sent (snd (call_api self lib api_endpoint api_params w)) = sent w @ [rq] \<and>
          base_url rq = swc_base_url_self self \<and> url rq = api_endpoint \<and>
          (\<forall>d. params rq = Some d \<longrightarrow> PyNone \<notin> snd ` set d)) \<and>
   sent (snd (call_api (fst (SWCClient_init (scenario_config ''csv'' False) w0)) lib
                LIST_LEAGUES_ENDPOINT (Some [(''league_id'', PyNone)]) w)) =
     sent w @ [\<lparr>base_url = ''https://api.example.com'', url = ''/v0/leagues/'',
               params = Some []\<rparr>]"
proof -
  have "swc_base_url_self (fst (SWCClient_init (scenario_config ''csv'' False) w0)) =
        ''https://api.example.com''"
    by (simp add: SWCClient_init_def Let_def scenario_config_def)
  moreover have "strip_params (Some [(''league_id'', PyNone)]) = Some []"
    by (simp add: strip_params_def)
  ultimately show ?thesis
    by (simp add: sent_call_api LIST_LEAGUES_ENDPOINT_def strip_params_no_None)
qed

theorem no_none_valued_parameter_is_sent_witness:
  "sent (snd (call_api (fst (SWCClient_init (scenario_config ''csv'' False) quiet))
                (answering 200 ''[]'') LIST_PLAYERS_ENDPOINT
                (Some [(''first_name'', PyNone), (''last_name'', PyStr ''Rice'')]) quiet)) =
     [\<lparr>base_url = ''https://api.example.com'', url = ''/v0/players/'',
       params = Some [(''last_name'', PyStr ''Rice'')]\<rparr>] \<and>
   PyNone \<notin> snd ` set [(''last_name'', PyStr ''Rice'')]"
  using no_none_valued_parameter_is_sent
    [of "fst (SWCClient_init (scenario_config ''csv'' False) quiet)" "answering 200 ''[]''"
        LIST_PLAYERS_ENDPOINT
        "Some [(''first_name'', PyNone), (''last_name'', PyStr ''Rice'')]" quiet]
  by (simp add: sent_call_api SWCClient_init_def Let_def scenario_config_def
        strip_params_def LIST_PLAYERS_ENDPOINT_def quiet_def)

text \<open>Filtering a dictionary by its values keeps the lookups of the entries that stay.\<close>

lemma map_of_filter_values:
  "distinct (map fst d) \<Longrightarrow>
   map_of (filter (\<lambda>(key, val). P val) d) k =
     (case map_of d k of None \<Rightarrow> None | Some v \<Rightarrow> if P v then Some v else None)"
proof (induction d)
  case Nil
  show ?case by simp
next
  case (Cons x d)
  obtain key val where x: "x = (key, val)" by (cases x)
  from Cons.prems x have notin: "key \<notin> fst ` set d" and dd: "distinct (map fst d)"
    by simp_all
  from notin have none: "map_of d key = None"
    by (simp add: map_of_eq_None_iff)
  show ?case
    using Cons.IH [OF dd] x none by (auto split: option.splits)
qed

text \<open>
  Claim C9. For a parameter mapping that is not empty (a Python dictionary: its keys are
  distinct), the mapping of the outgoing request is the input restricted to the keys
  whose value is not \<^verbatim>\<open>None\<close>: those entries keep their keys and values, and nothing
  else is sent.
\<close>

theorem stripping_keeps_the_other_entries:
  assumes "d \<noteq> []" and "distinct (map fst d)"
  shows "\<exists>d'. sent (snd (call_api self lib api_endpoint (Some d) w)) =
                sent w @ [\<lparr>base_url = swc_base_url_self self, url = api_endpoint,
                          params = Some d'\<rparr>] \<and>
              distinct (map fst d') \<and>
              map_of d' = map_of d |` {key. \<exists>val. map_of d key = Some val \<and> val \<noteq> PyNone}"
proof -
  let ?d' = "filter (\<lambda>(key, val). val \<noteq> PyNone) d"
  from assms(1) have s: "strip_params (Some d) = Some ?d'"
    by (simp add: strip_params_def)
  have m: "map_of ?d' = map_of d |` {key. \<exists>val. map_of d key = Some val \<and> val \<noteq> PyNone}"
  proof
    fix k
    show "map_of ?d' k =
          (map_of d |` {key. \<exists>val. map_of d key = Some val \<and> val \<noteq> PyNone}) k"
      using map_of_filter_values [OF assms(2), of "\<lambda>v. v \<noteq> PyNone" k]
      by (auto simp: restrict_map_def split: option.splits)
  qed
  have "distinct (map fst ?d')"
    using assms(2) by (simp add: distinct_map_filter)
  with s m show ?thesis
    by (simp add: sent_call_api)
qed

theorem stripping_keeps_the_other_entries_witness:
  "[(''team_name'', PyNone), (''league_id'', PyInt 5001)] \<noteq> [] \<and>
   distinct (map fst [(''team_name'', PyNone), (''league_id'', PyInt 5001)]) \<and>
   (\<exists>d'. sent (snd (call_api (fst (SWCClient_init (scenario_config ''csv'' False) quiet))
                 (answering 200 ''[]'') LIST_TEAMS_ENDPOINT
                 (Some [(''team_name'', PyNone), (''league_id'', PyInt 5001)]) quiet)) =
           sent quiet @ [\<lparr>base_url = ''https://api.example.com'', url = LIST_TEAMS_ENDPOINT,
                          params = Some d'\<rparr>] \<and>
         map_of d' ''league_id'' = Some (PyInt 5001) \<and> map_of d' ''team_name'' = None)"
proof -
  have n: "[(''team_name'', PyNone), (''league_id'', PyInt 5001)] \<noteq> []" by simp
  have d: "distinct (map fst [(''team_name'', PyNone), (''league_id'', PyInt 5001)])" by simp
  have b: "swc_base_url_self (fst (SWCClient_init (scenario_config ''csv'' False) quiet)) =
           ''https://api.example.com''"
    by (simp add: SWCClient_init_def Let_def scenario_config_def)
  from stripping_keeps_the_other_entries [OF n d,
      of "fst (SWCClient_init (scenario_config ''csv'' False) quiet)" "answering 200 ''[]''"
         LIST_TEAMS_ENDPOINT quiet]
  obtain d' where
    1: "sent (snd (call_api (fst (SWCClient_init (scenario_config ''csv'' False) quiet))
                 (answering 200 ''[]'') LIST_TEAMS_ENDPOINT
                 (Some [(''team_name'', PyNone), (''league_id'', PyInt 5001)]) quiet)) =
        sent quiet @ [\<lparr>base_url = ''https://api.example.com'', url = LIST_TEAMS_ENDPOINT,
                          params = Some d'\<rparr>]"
    and 2: "map_of d' = map_of [(''team_name'', PyNone), (''league_id'', PyInt 5001)] |`
              {key. \<exists>val. map_of [(''team_name'', PyNone), (''league_id'', PyInt 5001)] key = Some val
                      \<and> val \<noteq> PyNone}"
    unfolding b by blast
  from 2 have "map_of d' ''league_id'' = Some (PyInt 5001)" "map_of d' ''team_name'' = None"
    by (simp_all add: restrict_map_def)
  with 1 n d show ?thesis by blast
qed

section \<open>The retry alias\<close>

lemma init_fields:
  "swc_base_url_self (fst (SWCClient_init cfg w)) = swc_base_url cfg"
  "backoff (fst (SWCClient_init cfg w)) = swc_backoff cfg"
  "get_url (fst (SWCClient_init cfg w)) =
     (if swc_backoff cfg
      then Some \<lparr>wait_gen = expo, exception = [RequestError_class, HTTPStatusError_class],
                 max_time = swc_backoff_max_time cfg, jitter = random_jitter\<rparr>
      else None)"
  by (simp_all add: SWCClient_init_def Let_def)

text \<open>
  Claim C10. The constructor assigns \<^verbatim>\<open>get_url\<close> exactly when the retry flag of the
  configuration is set. On a client built without retries, reading \<^verbatim>\<open>get_url\<close>
  raises \<^verbatim>\<open>AttributeError\<close>: nothing falls back to \<^verbatim>\<open>call_api\<close>, and no request is issued,
  the lookup having no access to the state.
\<close>

theorem get_url_exists_only_with_backoff:
  "(get_url (fst (SWCClient_init cfg w)) \<noteq> None \<longleftrightarrow> swc_backoff cfg) \<and>
   (\<not> swc_backoff cfg \<longrightarrow>
      getattr_get_url (fst (SWCClient_init cfg w)) = Inl (AttributeError ''get_url''))"
  by (simp add: init_fields getattr_get_url_def)

theorem get_url_exists_only_with_backoff_witness:
  "\<not> swc_backoff (scenario_config ''csv'' False) \<and>
   getattr_get_url (fst (SWCClient_init (scenario_config ''csv'' False) quiet)) =
     Inl (AttributeError ''get_url'') \<and>
   get_url (fst (SWCClient_init (scenario_config ''csv'' True) quiet)) \<noteq> None"
proof -
  have off: "\<not> swc_backoff (scenario_config ''csv'' False)"
    and on: "swc_backoff (scenario_config ''csv'' True)"
    by (simp_all add: scenario_config_def)
  from off on
    get_url_exists_only_with_backoff [of "scenario_config ''csv'' False" quiet]
    get_url_exists_only_with_backoff [of "scenario_config ''csv'' True" quiet]
  show ?thesis by blast
qed

section \<open>The outcomes of \<^verbatim>\<open>call_api\<close>\<close>

text \<open>
  The two outcomes of the exchange. A transport failure leaves \<^verbatim>\<open>call_api\<close> as the same
  \<^verbatim>\<open>RequestError\<close>, after one debug and one error record. A response is returned when
  its body decodes, and replaced by the decoder's exception when it does not.
\<close>

lemma call_api_transport_failure:
  assumes "client_get lib \<lparr>base_url = swc_base_url_self self, url = api_endpoint,
                            params = strip_params api_params\<rparr> = Inl msg"
  shows "call_api self lib api_endpoint api_params w =
           (Inl (RequestError msg),
            \<lparr>logged = logged w @
               [Debug_call (swc_base_url_self self) api_endpoint (strip_params api_params),
                Error_request msg],
             sent = sent w @ [\<lparr>base_url = swc_base_url_self self, url = api_endpoint,
                                params = strip_params api_params\<rparr>]\<rparr>)"
  using assms by (simp add: call_api_def try_body_def logger_def Let_def)

lemma call_api_response:
  assumes "client_get lib \<lparr>base_url = swc_base_url_self self, url = api_endpoint,
                            params = strip_params api_params\<rparr> = Inr r"
  shows "fst (call_api self lib api_endpoint api_params w) =
           (case response_json lib r of None \<Rightarrow> Inl JSONDecodeError | Some j \<Rightarrow> Inr r)"
  using assms by (simp add: call_api_def try_body_def logger_def Let_def split: option.splits)

text \<open>Each \<^verbatim>\<open>except\<close> clause raises the exception it caught; any other exception passes through.\<close>

lemma except_clauses_same_error: "fst (except_clauses e w) = Inl e"
  by (cases e) simp_all

text \<open>
  No response makes \<^verbatim>\<open>call_api\<close> raise \<^verbatim>\<open>HTTPStatusError\<close>: the status code is never
  read, since \<^verbatim>\<open>raise_for_status\<close> is never called.
\<close>

lemma call_api_never_raises_status_error:
  "fst (call_api self lib api_endpoint api_params w) \<noteq> Inl (HTTPStatusError r)"
  by (cases "client_get lib \<lparr>base_url = swc_base_url_self self, url = api_endpoint,
                            params = strip_params api_params\<rparr>")
     (simp_all add: call_api_transport_failure call_api_response split: option.splits)

section \<open>What the caller gets back\<close>

text \<open>
  Claim C2, as stated, fails: the f-string of the debug record calls \<^verbatim>\<open>response.json()\<close>,
  so the client does decode the body, and a response whose body is no JSON document is
  not returned. Here the server answers the health check with status 200 and the plain
  text \<^verbatim>\<open>OK\<close>; httpx delivers the response, and \<^verbatim>\<open>call_api\<close> raises the decoder's
  exception.
\<close>

theorem plain_text_response_is_not_returned:
  "client_get (answering 200 ''OK'')
     \<lparr>base_url = ''https://api.example.com'', url = ''/'', params = None\<rparr> =
     Inr \<lparr>status_code = 200, headers = [], text_of = ''OK''\<rparr> \<and>
   call_api (fst (SWCClient_init (scenario_config ''csv'' False) quiet))
     (answering 200 ''OK'') HEALTH_CHECK_ENDPOINT None quiet =
     (Inl JSONDecodeError,
      \<lparr>logged = [Debug_call ''https://api.example.com'' ''/'' None],
       sent = [\<lparr>base_url = ''https://api.example.com'', url = ''/'', params = None\<rparr>]\<rparr>)"
  by (simp add: call_api_def try_body_def logger_def Let_def init_fields scenario_config_def
        strip_params_def HEALTH_CHECK_ENDPOINT_def quiet_def answering_def json_stub_def)

text \<open>
  Claim C2, amended. For every response httpx delivers whose status is not a failure
  status and whose body decodes as JSON, \<^verbatim>\<open>call_api\<close> returns that response unchanged
  (status, headers, body). The client decodes the body for its log and for nothing else:
  the call leaves one debug record of the request and one debug record holding the
  decoded body, no error record, and one exchange attempted.
\<close>

theorem successful_json_response_is_returned_unchanged:
  assumes "client_get lib \<lparr>base_url = swc_base_url_self self, url = api_endpoint,
                            params = strip_params api_params\<rparr> = Inr r"
    and "\<not> failure_status r"
    and "response_json lib r = Some j"
  shows "call_api self lib api_endpoint api_params w =
           (Inr r,
            \<lparr>logged = logged w @
               [Debug_call (swc_base_url_self self) api_endpoint (strip_params api_params),
                Debug_response_json j],
             sent = sent w @ [\<lparr>base_url = swc_base_url_self self, url = api_endpoint,
                                params = strip_params api_params\<rparr>]\<rparr>)"
  using assms(1,3) by (simp add: call_api_def try_body_def logger_def Let_def)

theorem successful_json_response_is_returned_unchanged_witness:
  "client_get (answering 200 ''[]'')
     \<lparr>base_url = ''https://api.example.com'', url = ''/v0/teams/'',
       params = Some [(''league_id'', PyInt 5001)]\<rparr> =
     Inr \<lparr>status_code = 200, headers = [], text_of = ''[]''\<rparr> \<and>
   \<not> failure_status \<lparr>status_code = 200, headers = [], text_of = ''[]''\<rparr> \<and>
   response_json (answering 200 ''[]'')
     \<lparr>status_code = 200, headers = [], text_of = ''[]''\<rparr> = Some (JArray []) \<and>
   call_api (fst (SWCClient_init (scenario_config ''csv'' False) quiet))
     (answering 200 ''[]'') LIST_TEAMS_ENDPOINT
     (Some [(''team_name'', PyNone), (''league_id'', PyInt 5001)]) quiet =
     (Inr \<lparr>status_code = 200, headers = [], text_of = ''[]''\<rparr>,
      \<lparr>logged = [Debug_call ''https://api.example.com'' ''/v0/teams/''
                   (Some [(''league_id'', PyInt 5001)]),
                 Debug_response_json (JArray [])],
       sent = [\<lparr>base_url = ''https://api.example.com'', url = ''/v0/teams/'',
                 params = Some [(''league_id'', PyInt 5001)]\<rparr>]\<rparr>)"
proof -
  let ?self = "fst (SWCClient_init (scenario_config ''csv'' False) quiet)"
  let ?r = "\<lparr>status_code = 200, headers = [], text_of = ''[]''\<rparr>"
  let ?ps = "Some [(''team_name'', PyNone), (''league_id'', PyInt 5001)]"
  have g: "client_get (answering 200 ''[]'')
             \<lparr>base_url = swc_base_url_self ?self, url = LIST_TEAMS_ENDPOINT,
               params = strip_params ?ps\<rparr> = Inr ?r"
    by (simp add: answering_def)
  have s: "\<not> failure_status ?r"
    by (simp add: failure_status_def)
  have j: "response_json (answering 200 ''[]'') ?r = Some (JArray [])"
    by (simp add: answering_def json_stub_def)
  from successful_json_response_is_returned_unchanged [OF g s j, of quiet] s j
  show ?thesis
    by (simp add: answering_def init_fields scenario_config_def strip_params_def
          LIST_TEAMS_ENDPOINT_def quiet_def)
qed

section \<open>Responses with a failure status\<close>

text \<open>
  Claim C1 at its own scenario: retries enabled, ceiling 1 second, a server that answers
  503 to every request. The constructor stores the alias with \<^verbatim>\<open>HTTPStatusError\<close> among
  the exceptions to retry, and \<^verbatim>\<open>call_api\<close> has an \<^verbatim>\<open>except\<close> clause for it, but the call
  returns the 503 response as its result when the body is JSON, and raises the decoder's
  exception when it is not; in neither case a status error
  (\<open>call_api_never_raises_status_error\<close>).
\<close>

theorem status_503_is_returned_not_raised:
  "get_url (fst (SWCClient_init (scenario_config ''csv'' True) quiet)) =
     Some \<lparr>wait_gen = expo, exception = [RequestError_class, HTTPStatusError_class],
            max_time = 1, jitter = random_jitter\<rparr> \<and>
   call_api (fst (SWCClient_init (scenario_config ''csv'' True) quiet))
     (answering 503 ''{}'') LIST_LEAGUES_ENDPOINT None quiet =
     (Inr \<lparr>status_code = 503, headers = [], text_of = ''{}''\<rparr>,
      \<lparr>logged = [Debug_call ''https://api.example.com'' ''/v0/leagues/'' None,
                 Debug_response_json (JObject [])],
       sent = [\<lparr>base_url = ''https://api.example.com'', url = ''/v0/leagues/'',
                 params = None\<rparr>]\<rparr>) \<and>
   fst (call_api (fst (SWCClient_init (scenario_config ''csv'' True) quiet))
     (answering 503 ''Service Unavailable'') LIST_LEAGUES_ENDPOINT None quiet) =
     Inl JSONDecodeError"
  by (simp add: call_api_def try_body_def logger_def Let_def init_fields scenario_config_def
        strip_params_def LIST_LEAGUES_ENDPOINT_def quiet_def answering_def json_stub_def)

text \<open>
  Claim C6 at a status failure: on a client built without retries, a 404 answer is
  returned to the caller after the one exchange; no error propagates.
\<close>

theorem without_backoff_status_404_is_returned:
  "get_url (fst (SWCClient_init (scenario_config ''csv'' False) quiet)) = None \<and>
   call_api (fst (SWCClient_init (scenario_config ''csv'' False) quiet))
     (answering 404 ''{}'') LIST_PLAYERS_ENDPOINT (Some [(''player_id'', PyInt 0)]) quiet =
     (Inr \<lparr>status_code = 404, headers = [], text_of = ''{}''\<rparr>,
      \<lparr>logged = [Debug_call ''https://api.example.com'' ''/v0/players/''
                   (Some [(''player_id'', PyInt 0)]),
                 Debug_response_json (JObject [])],
       sent = [\<lparr>base_url = ''https://api.example.com'', url = ''/v0/players/'',
                 params = Some [(''player_id'', PyInt 0)]\<rparr>]\<rparr>)"
  by (simp add: call_api_def try_body_def logger_def Let_def init_fields scenario_config_def
        strip_params_def LIST_PLAYERS_ENDPOINT_def quiet_def answering_def json_stub_def)

text \<open>
  The rest of that claim holds: without retries the only call path is \<^verbatim>\<open>call_api\<close>, which
  attempts one exchange, and a transport failure is raised at once.
\<close>

lemma without_backoff_transport_failure_raises_at_once:
  assumes "\<not> swc_backoff cfg"
    and "client_get lib \<lparr>base_url = swc_base_url cfg, url = api_endpoint,
                          params = strip_params api_params\<rparr> = Inl msg"
  shows "get_url (fst (SWCClient_init cfg w0)) = None \<and>
         fst (call_api (fst (SWCClient_init cfg w0)) lib api_endpoint api_params w) =
           Inl (RequestError msg) \<and>
         length (sent (snd (call_api (fst (SWCClient_init cfg w0)) lib api_endpoint api_params w))) =
           length (sent w) + 1"
  using assms by (simp add: init_fields call_api_transport_failure)

text \<open>
  Claim C8 at a status failure: the teams endpoint answers 500. The call writes its two
  debug records and returns the response; the \<^verbatim>\<open>except\<close> clause that would log the
  status code and the body at error level, and raise, is never entered. The transport
  half of the claim holds: a \<^verbatim>\<open>RequestError\<close> is logged once at error level and raised
  as it is (\<open>call_api_transport_failure\<close>).
\<close>

theorem status_500_is_neither_logged_nor_raised:
  "failure_status \<lparr>status_code = 500, headers = [], text_of = ''[]''\<rparr> \<and>
   call_api (fst (SWCClient_init (scenario_config ''parquet'' False) quiet))
     (answering 500 ''[]'') LIST_TEAMS_ENDPOINT None quiet =
     (Inr \<lparr>status_code = 500, headers = [], text_of = ''[]''\<rparr>,
      \<lparr>logged = [Debug_call ''https://api.example.com'' ''/v0/teams/'' None,
                 Debug_response_json (JArray [])],
       sent = [\<lparr>base_url = ''https://api.example.com'', url = ''/v0/teams/'',
                 params = None\<rparr>]\<rparr>)"
  by (simp add: failure_status_def call_api_def try_body_def logger_def Let_def init_fields
        scenario_config_def strip_params_def LIST_TEAMS_ENDPOINT_def quiet_def answering_def
        json_stub_def)

end
